theory Spec2Isabelle
  imports Complex_Main "HOL-Library.Multiset"
begin

section \<open>Data model\<close>

text \<open>
  The utilities of \<^verbatim>\<open>utilities.test.ts\<close> (the file \<^verbatim>\<open>src/unnamed/part_000\<close>, to
  which the line numbers below refer) and the tables of \<^verbatim>\<open>constants.test.ts\<close> are
  pure functions over JavaScript numbers, strings, arrays and object literals.

  \<^item> A JavaScript \<^verbatim>\<open>number\<close> is modelled as a \<^typ>\<open>real\<close>: \<open>+\<close>, \<open>-\<close>, \<open>*\<close> and the
    comparisons are exact. The rounding of IEEE-754 doubles and the values \<^verbatim>\<open>NaN\<close> and
    \<^verbatim>\<open>Infinity\<close> are outside the model.
  \<^item> A JavaScript string is modelled as a \<^typ>\<open>string\<close>; a \<^typ>\<open>char\<close> stands for the
    code unit of the same number, so the strings covered are those of code units
    below \<^verbatim>\<open>U+0100\<close>.
  \<^item> An array is a list; an object literal with fixed fields is a record; a field that
    may be absent (\<^verbatim>\<open>undefined\<close>) has an \<^typ>\<open>'a option\<close> type; an object used as a
    dictionary is the list of its entries in the order \<^verbatim>\<open>Object.entries\<close> yields them.
\<close>

type_synonym number = real

subsection \<open>Rarity calculation\<close>

text \<open>
  \<^verbatim>\<open>calculateRarity\<close>, lines 68 to 88: the local constant \<^verbatim>\<open>powerLevel\<close> and the
  cascade of early returns, in the order of the source.
\<close>

definition calculateRarity :: "number \<Rightarrow> number \<Rightarrow> number \<Rightarrow> number \<Rightarrow> number \<Rightarrow> string" where
  "calculateRarity followers repos contributions stars forks =
     (let powerLevel =
        followers * 2 +
        repos * 1 +
        contributions * 0.1 +
        stars * 3 +
        forks * 2
      in
        if powerLevel \<ge> 5000 then ''mythical''
        else if powerLevel \<ge> 2000 then ''legendary''
        else if powerLevel \<ge> 800 then ''epic''
        else if powerLevel \<ge> 300 then ''rare''
        else if powerLevel \<ge> 100 then ''uncommon''
        else ''common'')"

text \<open>
  The two halves of \<^verbatim>\<open>calculateRarity\<close> on their own, for the claims that speak of
  the power level of an input and of the tier of a power level: the value bound to the
  local constant (lines 75 to 80) and the threshold cascade applied to it (lines 82 to
  87). Lemma \<open>calculateRarity_tierOfPower\<close> below shows that the function is their
  composition.
\<close>

definition powerLevel :: "number \<Rightarrow> number \<Rightarrow> number \<Rightarrow> number \<Rightarrow> number \<Rightarrow> number" where
  "powerLevel followers repos contributions stars forks =
     followers * 2 +
     repos * 1 +
     contributions * 0.1 +
     stars * 3 +
     forks * 2"

definition tierOfPower :: "number \<Rightarrow> string" where
  "tierOfPower p =
     (if p \<ge> 5000 then ''mythical''
      else if p \<ge> 2000 then ''legendary''
      else if p \<ge> 800 then ''epic''
      else if p \<ge> 300 then ''rare''
      else if p \<ge> 100 then ''uncommon''
      else ''common'')"

text \<open>
  The fixed ordering of the tiers, \<open>common < uncommon < rare < epic < legendary < mythical\<close>.
  The source has no comparison of tiers; the ordering is the one the specification
  fixes, which is also the order in which \<^verbatim>\<open>RARITY_LEVELS\<close> declares its keys. A string
  that is no tier has no rank and is comparable with nothing.
\<close>

definition tier_order :: "string list" where
  "tier_order = [''common'', ''uncommon'', ''rare'', ''epic'', ''legendary'', ''mythical'']"

fun index_of :: "'a \<Rightarrow> 'a list \<Rightarrow> nat option" where
  "index_of x [] = None"
| "index_of x (y # ys) = (if x = y then Some 0 else map_option Suc (index_of x ys))"

definition tier_rank :: "string \<Rightarrow> nat option" where
  "tier_rank t = index_of t tier_order"

definition tier_le :: "string \<Rightarrow> string \<Rightarrow> bool" where
  "tier_le t1 t2 =
     (case (tier_rank t1, tier_rank t2) of
        (Some i, Some j) \<Rightarrow> i \<le> j
      | _ \<Rightarrow> False)"

definition tier_less :: "string \<Rightarrow> string \<Rightarrow> bool" where
  "tier_less t1 t2 =
     (case (tier_rank t1, tier_rank t2) of
        (Some i, Some j) \<Rightarrow> i < j
      | _ \<Rightarrow> False)"

subsection \<open>Rarity level table\<close>

text \<open>\<^verbatim>\<open>RARITY_LEVELS\<close>, \<^verbatim>\<open>constants.test.ts\<close> lines 82 to 113, entries in declaration order.\<close>

record rarity_level =
  name :: string
  color :: string
  gradient :: string

definition RARITY_LEVELS :: "(string \<times> rarity_level) list" where
  "RARITY_LEVELS =
     [(''common'',
         \<lparr>name = ''Common'', color = ''#909692'', gradient = ''from-gray-500 to-gray-600''\<rparr>),
      (''uncommon'',
         \<lparr>name = ''Uncommon'', color = ''#8CF2A6'', gradient = ''from-green-400 to-green-500''\<rparr>),
      (''rare'',
         \<lparr>name = ''Rare'', color = ''#58A6FF'', gradient = ''from-blue-400 to-blue-500''\<rparr>),
      (''epic'',
         \<lparr>name = ''Epic'', color = ''#DCFF96'', gradient = ''from-yellow-400 to-lime-400''\<rparr>),
      (''legendary'',
         \<lparr>name = ''Legendary'', color = ''#BC8CFF'', gradient = ''from-purple-400 to-purple-500''\<rparr>),
      (''mythical'',
         \<lparr>name = ''Mythical'', color = ''#5FED83'', gradient = ''from-green-300 to-green-400''\<rparr>)]"

text \<open>
  The shape the table's own test demands of a colour, \<^verbatim>\<open>/^#[0-9A-F]{6}$/i\<close>: a hash sign
  and six hexadecimal digits of either case.
\<close>

definition is_hex_digit :: "char \<Rightarrow> bool" where
  "is_hex_digit c = (c \<in> set ''0123456789ABCDEFabcdef'')"

definition is_hex_color :: "string \<Rightarrow> bool" where
  "is_hex_color s =
     (case s of
        [] \<Rightarrow> False
      | h # ds \<Rightarrow> h = CHR ''#'' \<and> length ds = 6 \<and> list_all is_hex_digit ds)"

subsection \<open>Username utilities\<close>

text \<open>
  \<^verbatim>\<open>username.replace(/^@/, "")\<close>: the pattern has no \<^verbatim>\<open>g\<close> and no \<^verbatim>\<open>m\<close> flag, so
  \<^verbatim>\<open>^\<close> matches at index 0 only and at most one match is replaced.
\<close>

definition replace_leading_at :: "string \<Rightarrow> string" where
  "replace_leading_at username =
     (case username of
        [] \<Rightarrow> []
      | c # cs \<Rightarrow> if c = CHR ''@'' then cs else username)"

text \<open>
  \<^verbatim>\<open>String.prototype.trim\<close> removes the leading and the trailing run of white space and
  line terminators. Of those, the code units below \<^verbatim>\<open>U+0100\<close> are TAB, LF, VT, FF, CR,
  SPACE and NO-BREAK SPACE.
\<close>

definition is_white_space :: "char \<Rightarrow> bool" where
  "is_white_space c =
     (c \<in> set [CHR 0x09, CHR 0x0A, CHR 0x0B, CHR 0x0C, CHR 0x0D, CHR 0x20, CHR 0xA0])"

definition trim :: "string \<Rightarrow> string" where
  "trim s = rev (dropWhile is_white_space (rev (dropWhile is_white_space s)))"

text \<open>\<^verbatim>\<open>getCleanUsername\<close>, line 17.\<close>

definition getCleanUsername :: "string \<Rightarrow> string" where
  "getCleanUsername username = trim (replace_leading_at username)"

subsection \<open>Contribution totalling\<close>

text \<open>
  Lines 283 to 290. \<^verbatim>\<open>xs.reduce(f, init)\<close> with an initial value is a left fold, and
  returns \<^verbatim>\<open>init\<close> on the empty array.
\<close>

record contributionDay =
  contributionCount :: number

record week =
  contributionDays :: "contributionDay list"

definition total_contributions :: "week list \<Rightarrow> number" where
  "total_contributions weeks =
     foldl (\<lambda>sum week.
        sum + foldl (\<lambda>s day. s + contributionCount day) 0 (contributionDays week)) 0 weeks"

subsection \<open>Top languages\<close>

text \<open>
  Lines 332 to 335. The argument is the array \<^verbatim>\<open>Object.entries(languageCount)\<close>, the
  name and count pairs in the object's property order.

  \<^verbatim>\<open>Array.prototype.sort(compareFn)\<close> is a stable sort: \<open>x\<close> stays before \<open>y\<close> unless
  \<open>compareFn(x, y) > 0\<close>. For a consistent comparator the result is the same for every
  stable algorithm; it is computed here by stable insertion.
\<close>

fun insert_by :: "('a \<Rightarrow> 'a \<Rightarrow> number) \<Rightarrow> 'a \<Rightarrow> 'a list \<Rightarrow> 'a list" where
  "insert_by compareFn x [] = [x]"
| "insert_by compareFn x (y # ys) =
     (if compareFn x y \<le> 0 then x # y # ys else y # insert_by compareFn x ys)"

definition array_sort :: "('a \<Rightarrow> 'a \<Rightarrow> number) \<Rightarrow> 'a list \<Rightarrow> 'a list" where
  "array_sort compareFn xs = foldr (insert_by compareFn) xs []"

definition topLanguages :: "(string \<times> number) list \<Rightarrow> string list" where
  "topLanguages languageCount =
     map (\<lambda>(lang, _). lang)
       (take 3
         (array_sort (\<lambda>(_, a) (_, b). b - a) languageCount))"

subsection \<open>Stats aggregation\<close>

text \<open>
  Lines 408 to 443. A repository object may lack a counter; \<^verbatim>\<open>x || 0\<close> is \<open>x\<close> when
  \<open>x\<close> is truthy and 0 otherwise, and of the values of the model \<^verbatim>\<open>undefined\<close> and 0 are
  the falsy ones.
\<close>

record repo =
  stargazers_count :: "number option"
  forks_count :: "number option"

definition or_zero :: "number option \<Rightarrow> number" where
  "or_zero x = (case x of None \<Rightarrow> 0 | Some v \<Rightarrow> if v = 0 then 0 else v)"

definition totalStars :: "repo list \<Rightarrow> number" where
  "totalStars repos = foldl (\<lambda>sum repo. sum + or_zero (stargazers_count repo)) 0 repos"

definition totalForks :: "repo list \<Rightarrow> number" where
  "totalForks repos = foldl (\<lambda>sum repo. sum + or_zero (forks_count repo)) 0 repos"

section \<open>Rarity calculation: properties\<close>

lemma calculateRarity_tierOfPower:
  "calculateRarity followers repos contributions stars forks =
     tierOfPower (powerLevel followers repos contributions stars forks)"
  by (simp add: calculateRarity_def tierOfPower_def powerLevel_def Let_def)



lemma powerLevel_of_repos: "powerLevel 0 p 0 0 0 = p"
  by (simp add: powerLevel_def)

lemma tierOfPower_in_tier_order: "tierOfPower p \<in> set tier_order"
  by (simp add: tierOfPower_def tier_order_def)

lemma tier_rank_tierOfPower:
  "tier_rank (tierOfPower p) =
     Some (if p \<ge> 5000 then 5 else if p \<ge> 2000 then 4 else if p \<ge> 800 then 3
           else if p \<ge> 300 then 2 else if p \<ge> 100 then 1 else 0)"
  by (simp add: tierOfPower_def tier_rank_def tier_order_def)

lemma tierOfPower_mono:
  assumes "p1 \<le> p2"
  shows "tier_le (tierOfPower p1) (tierOfPower p2)"
  using assms by (simp add: tier_le_def tier_rank_tierOfPower)

lemma tierOfPower_not_less:
  assumes "p1 \<le> p2"
  shows "\<not> tier_less (tierOfPower p2) (tierOfPower p1)"
  using assms by (simp add: tier_less_def tier_rank_tierOfPower)

lemma powerLevel_mono:
  assumes "f \<le> f'" "r \<le> r'" "c \<le> c'" "s \<le> s'" "k \<le> k'"
  shows "powerLevel f r c s k \<le> powerLevel f' r' c' s' k'"
  using assms by (simp add: powerLevel_def add_mono)

text \<open>
  Claim C2. The thresholds are inclusive lower bounds: every input whose power level is
  exactly 100 is uncommon, exactly 300 rare, exactly 800 epic, exactly 2000 legendary and
  exactly 5000 mythical, and every input whose power level is 99.999 is common.
\<close>

theorem calculateRarity_boundaries:
  fixes followers repos contributions stars forks :: number
  defines "p \<equiv> powerLevel followers repos contributions stars forks"
  defines "t \<equiv> calculateRarity followers repos contributions stars forks"
  shows "(p = 100 \<longrightarrow> t = ''uncommon'') \<and>
         (p = 300 \<longrightarrow> t = ''rare'') \<and>
         (p = 800 \<longrightarrow> t = ''epic'') \<and>
         (p = 2000 \<longrightarrow> t = ''legendary'') \<and>
         (p = 5000 \<longrightarrow> t = ''mythical'') \<and>
         (p = 99.999 \<longrightarrow> t = ''common'')"
proof -
  have "t = tierOfPower p"
    by (simp add: t_def p_def calculateRarity_tierOfPower)
  then show ?thesis
    by (simp add: tierOfPower_def)
qed

theorem calculateRarity_boundaries_witness:
  "powerLevel 50 0 0 0 0 = 100 \<and> calculateRarity 50 0 0 0 0 = ''uncommon'' \<and>
   powerLevel 150 0 0 0 0 = 300 \<and> calculateRarity 150 0 0 0 0 = ''rare'' \<and>
   powerLevel 400 0 0 0 0 = 800 \<and> calculateRarity 400 0 0 0 0 = ''epic'' \<and>
   powerLevel 1000 0 0 0 0 = 2000 \<and> calculateRarity 1000 0 0 0 0 = ''legendary'' \<and>
   powerLevel 2500 0 0 0 0 = 5000 \<and> calculateRarity 2500 0 0 0 0 = ''mythical'' \<and>
   powerLevel 0 0 999.99 0 0 = 99.999 \<and> calculateRarity 0 0 999.99 0 0 = ''common''"
  using calculateRarity_boundaries [of 50 0 0 0 0]
    calculateRarity_boundaries [of 150 0 0 0 0]
    calculateRarity_boundaries [of 400 0 0 0 0]
    calculateRarity_boundaries [of 1000 0 0 0 0]
    calculateRarity_boundaries [of 2500 0 0 0 0]
    calculateRarity_boundaries [of 0 0 "999.99" 0 0]
  by (simp add: powerLevel_def)

text \<open>
  Claim C3. The tier is a monotonic step function of the power level: for reals
  \<open>p1 \<le> p2\<close> the tier of \<open>p1\<close> is at most the tier of \<open>p2\<close> in the ordering
  \<open>common < uncommon < rare < epic < legendary < mythical\<close>, the tier of \<open>p2\<close> is never
  strictly below the tier of \<open>p1\<close>, and so it is for the results of \<open>calculateRarity\<close>
  on any two inputs with these power levels.
\<close>

theorem tier_monotone_in_powerLevel:
  fixes p1 p2 :: number
  assumes "p1 \<le> p2"
  shows "tier_le (tierOfPower p1) (tierOfPower p2) \<and>
         \<not> tier_less (tierOfPower p2) (tierOfPower p1) \<and>
         (\<forall>f1 r1 c1 s1 k1 f2 r2 c2 s2 k2.
            powerLevel f1 r1 c1 s1 k1 = p1 \<and> powerLevel f2 r2 c2 s2 k2 = p2 \<longrightarrow>
              tier_le (calculateRarity f1 r1 c1 s1 k1) (calculateRarity f2 r2 c2 s2 k2) \<and>
              \<not> tier_less (calculateRarity f2 r2 c2 s2 k2) (calculateRarity f1 r1 c1 s1 k1))"
  using tierOfPower_mono [OF assms] tierOfPower_not_less [OF assms]
  by (simp add: calculateRarity_tierOfPower)

theorem tier_monotone_in_powerLevel_witness:
  "(299::number) \<le> 300 \<and>
   tierOfPower 299 = ''uncommon'' \<and> tierOfPower 300 = ''rare'' \<and>
   tier_le (tierOfPower 299) (tierOfPower 300) \<and>
   \<not> tier_less (tierOfPower 300) (tierOfPower 299) \<and>
   tier_le (calculateRarity 149.5 0 0 0 0) (calculateRarity 0 0 0 100 0)"
proof -
  have h: "(299::number) \<le> 300" by simp
  have a: "powerLevel 149.5 0 0 0 0 = 299 \<and> powerLevel 0 0 0 100 0 = 300"
    by (simp add: powerLevel_def)
  have t: "tierOfPower 299 = ''uncommon'' \<and> tierOfPower 300 = ''rare''"
    by (simp add: tierOfPower_def)
  from tier_monotone_in_powerLevel [OF h] a t h show ?thesis
    by blast
qed

text \<open>
  Claim C4. On non-negative metrics the power level is monotonically non-decreasing in
  each of the five metrics: raising one of followers, repos, contributions, stars or
  forks with the other four fixed never lowers it.
\<close>

theorem powerLevel_monotone_each_metric:
  fixes followers repos contributions stars forks :: number
  assumes "0 \<le> followers" "0 \<le> repos" "0 \<le> contributions" "0 \<le> stars" "0 \<le> forks"
  shows "(followers \<le> followers' \<longrightarrow>
            powerLevel followers repos contributions stars forks
              \<le> powerLevel followers' repos contributions stars forks) \<and>
         (repos \<le> repos' \<longrightarrow>
            powerLevel followers repos contributions stars forks
              \<le> powerLevel followers repos' contributions stars forks) \<and>
         (contributions \<le> contributions' \<longrightarrow>
            powerLevel followers repos contributions stars forks
              \<le> powerLevel followers repos contributions' stars forks) \<and>
         (stars \<le> stars' \<longrightarrow>
            powerLevel followers repos contributions stars forks
              \<le> powerLevel followers repos contributions stars' forks) \<and>
         (forks \<le> forks' \<longrightarrow>
            powerLevel followers repos contributions stars forks
              \<le> powerLevel followers repos contributions stars forks')"
  by (simp add: powerLevel_mono)

theorem powerLevel_monotone_each_metric_witness:
  "(0::number) \<le> 10 \<and> (0::number) \<le> 20 \<and> (0::number) \<le> 100 \<and> (0::number) \<le> 5 \<and> (0::number) \<le> 3 \<and>
   powerLevel 10 20 100 5 3 \<le> powerLevel 11 20 100 5 3 \<and>
   powerLevel 10 20 100 5 3 \<le> powerLevel 10 21 100 5 3 \<and>
   powerLevel 10 20 100 5 3 \<le> powerLevel 10 20 100.5 5 3 \<and>
   powerLevel 10 20 100 5 3 \<le> powerLevel 10 20 100 6 3 \<and>
   powerLevel 10 20 100 5 3 \<le> powerLevel 10 20 100 5 4"
  using powerLevel_monotone_each_metric [of 10 20 100 5 3 11 21 "100.5" 6 4]
  by simp

lemma tier_order_keys: "map fst RARITY_LEVELS = tier_order"
  by (simp add: RARITY_LEVELS_def tier_order_def)

lemma RARITY_LEVELS_complete:
  assumes "t \<in> set tier_order"
  shows "\<exists>lvl. map_of RARITY_LEVELS t = Some lvl \<and>
               name lvl \<noteq> [] \<and> is_hex_color (color lvl) \<and> gradient lvl \<noteq> []"
proof -
  have "set tier_order = {''common'', ''uncommon'', ''rare'', ''epic'', ''legendary'', ''mythical''}"
    by (simp add: tier_order_def)
  with assms have "t = ''common'' \<or> t = ''uncommon'' \<or> t = ''rare''
      \<or> t = ''epic'' \<or> t = ''legendary'' \<or> t = ''mythical''"
    by (simp only: insert_iff empty_iff simp_thms)
  then show ?thesis
  proof (elim disjE)
    assume "t = ''common''"
    then show ?thesis
      by (simp add: RARITY_LEVELS_def is_hex_color_def is_hex_digit_def)
  next
    assume "t = ''uncommon''"
    then show ?thesis
      by (simp add: RARITY_LEVELS_def is_hex_color_def is_hex_digit_def)
  next
    assume "t = ''rare''"
    then show ?thesis
      by (simp add: RARITY_LEVELS_def is_hex_color_def is_hex_digit_def)
  next
    assume "t = ''epic''"
    then show ?thesis
      by (simp add: RARITY_LEVELS_def is_hex_color_def is_hex_digit_def)
  next
    assume "t = ''legendary''"
    then show ?thesis
      by (simp add: RARITY_LEVELS_def is_hex_color_def is_hex_digit_def)
  next
    assume "t = ''mythical''"
    then show ?thesis
      by (simp add: RARITY_LEVELS_def is_hex_color_def is_hex_digit_def)
  qed
qed




text \<open>
  Claim C10. For every input the result of \<open>calculateRarity\<close> is one of \<open>common\<close>,
  \<open>uncommon\<close>, \<open>rare\<close>, \<open>epic\<close>, \<open>legendary\<close> and \<open>mythical\<close>; these six are exactly the
  keys of \<open>RARITY_LEVELS\<close>, so the lookup of the result succeeds and gives an entry with
  a display name, a hex colour and a gradient.
\<close>

theorem calculateRarity_in_RARITY_LEVELS:
  fixes followers repos contributions stars forks :: number
  shows "calculateRarity followers repos contributions stars forks
           \<in> {''common'', ''uncommon'', ''rare'', ''epic'', ''legendary'', ''mythical''} \<and>
         map fst RARITY_LEVELS =
           [''common'', ''uncommon'', ''rare'', ''epic'', ''legendary'', ''mythical''] \<and>
         (\<exists>lvl. map_of RARITY_LEVELS (calculateRarity followers repos contributions stars forks)
                   = Some lvl \<and>
                name lvl \<noteq> [] \<and> is_hex_color (color lvl) \<and> gradient lvl \<noteq> [])"
proof -
  have mem: "calculateRarity followers repos contributions stars forks \<in> set tier_order"
    by (simp only: calculateRarity_tierOfPower tierOfPower_in_tier_order)
  have "set tier_order = {''common'', ''uncommon'', ''rare'', ''epic'', ''legendary'', ''mythical''}"
    by (simp add: tier_order_def)
  with mem have "calculateRarity followers repos contributions stars forks
      \<in> {''common'', ''uncommon'', ''rare'', ''epic'', ''legendary'', ''mythical''}"
    by (simp only:)
  moreover have "map fst RARITY_LEVELS =
      [''common'', ''uncommon'', ''rare'', ''epic'', ''legendary'', ''mythical'']"
    by (simp only: tier_order_keys tier_order_def)
  moreover note RARITY_LEVELS_complete [OF mem]
  ultimately show ?thesis
    by (simp only: simp_thms)
qed

theorem calculateRarity_in_RARITY_LEVELS_witness:
  "calculateRarity 200 100 1000 50 50 = ''epic'' \<and>
   map_of RARITY_LEVELS (calculateRarity 200 100 1000 50 50) =
     Some \<lparr>name = ''Epic'', color = ''#DCFF96'', gradient = ''from-yellow-400 to-lime-400''\<rparr>"
proof -
  have e: "calculateRarity 200 100 1000 50 50 = ''epic''"
    by (simp add: calculateRarity_def)
  from calculateRarity_in_RARITY_LEVELS [of 200 100 1000 50 50]
  obtain lvl where "map_of RARITY_LEVELS (calculateRarity 200 100 1000 50 50) = Some lvl"
    by blast
  then show ?thesis
    using e by (simp add: RARITY_LEVELS_def)
qed

section \<open>Username utilities: properties\<close>

lemma trim_split:
  "dropWhile is_white_space s =
     trim s @ rev (takeWhile is_white_space (rev (dropWhile is_white_space s)))"
proof -
  let ?d = "dropWhile is_white_space s"
  have "trim s @ rev (takeWhile is_white_space (rev ?d)) =
      rev (takeWhile is_white_space (rev ?d) @ dropWhile is_white_space (rev ?d))"
    by (simp only: trim_def rev_append)
  also have "\<dots> = rev (rev ?d)"
    by (simp only: takeWhile_dropWhile_id)
  also have "\<dots> = ?d"
    by simp
  finally show ?thesis
    by simp
qed

lemma white_takeWhile: "list_all is_white_space (takeWhile is_white_space xs)"
  by (induction xs) simp_all

lemma trim_decomp:
  "\<exists>pre post. s = pre @ trim s @ post \<and>
     list_all is_white_space pre \<and> list_all is_white_space post"
proof -
  let ?pre = "takeWhile is_white_space s"
  let ?post = "rev (takeWhile is_white_space (rev (dropWhile is_white_space s)))"
  have "s = ?pre @ dropWhile is_white_space s"
    by simp
  with trim_split [of s] have "s = ?pre @ trim s @ ?post"
    by simp
  moreover have "list_all is_white_space ?pre"
    by (rule white_takeWhile)
  moreover have "list_all is_white_space ?post"
    by (simp add: white_takeWhile)
  ultimately show ?thesis
    by blast
qed

lemma trim_ends:
  assumes "trim s \<noteq> []"
  shows "\<not> is_white_space (hd (trim s)) \<and> \<not> is_white_space (last (trim s))"
proof -
  let ?d = "dropWhile is_white_space s"
  let ?e = "dropWhile is_white_space (rev ?d)"
  have t: "trim s = rev ?e"
    by (simp add: trim_def)
  with assms have e: "?e \<noteq> []"
    by simp
  then have "\<not> is_white_space (hd ?e)"
    by (rule hd_dropWhile)
  moreover have "last (trim s) = hd ?e"
    using e by (simp add: t last_rev)
  ultimately have l: "\<not> is_white_space (last (trim s))"
    by simp
  have "hd ?d = hd (trim s)"
    using assms trim_split [of s] by (metis hd_append2)
  moreover have "?d \<noteq> []"
    using assms trim_split [of s] by (metis append_is_Nil_conv)
  then have "\<not> is_white_space (hd ?d)"
    by (rule hd_dropWhile)
  ultimately show ?thesis
    using l by simp
qed

lemma filter_white_Nil:
  assumes "list_all is_white_space xs" and "\<not> is_white_space c"
  shows "filter (\<lambda>x. x = c) xs = []"
  using assms by (induction xs) auto

lemma trim_keeps:
  assumes "\<not> is_white_space c"
  shows "filter (\<lambda>x. x = c) (trim s) = filter (\<lambda>x. x = c) s"
proof -
  from trim_decomp [of s] obtain pre post where
    s: "s = pre @ trim s @ post" and
    pre: "list_all is_white_space pre" and post: "list_all is_white_space post"
    by blast
  have "filter (\<lambda>x. x = c) s = filter (\<lambda>x. x = c) (pre @ trim s @ post)"
    using s by simp
  then show ?thesis
    by (simp only: filter_append filter_white_Nil [OF pre assms]
        filter_white_Nil [OF post assms] append_Nil append_Nil2)
qed

lemma at_not_white_space: "\<not> is_white_space CHR ''@''"
  by (simp add: is_white_space_def)

text \<open>
  Claim C6. \<open>getCleanUsername\<close> strips one leading \<open>@\<close>, and only when it is the first
  character, then trims: on \<open>@\<close> followed by \<open>s\<close> it is the trimmed \<open>s\<close>, on a string
  that starts with another character, as on the empty string, it is the trimmed input.
  The trimmed string is the input without its leading and trailing white space and has
  none at either end. Every \<open>@\<close> other than the stripped first character is kept. So
  \<open>"@octocat"\<close> maps to \<open>"octocat"\<close>, \<open>"  @octocat  "\<close> to \<open>"@octocat"\<close>, \<open>"@@a"\<close> to
  \<open>"@a"\<close> and \<open>"user@name"\<close> to itself.
\<close>

theorem getCleanUsername_strips_first_at_then_trims:
  "getCleanUsername (CHR ''@'' # s) = trim s \<and>
   (c \<noteq> CHR ''@'' \<longrightarrow> getCleanUsername (c # s) = trim (c # s)) \<and>
   getCleanUsername [] = [] \<and>
   (\<exists>pre post. s = pre @ trim s @ post \<and>
      list_all is_white_space pre \<and> list_all is_white_space post) \<and>
   (trim s \<noteq> [] \<longrightarrow> \<not> is_white_space (hd (trim s)) \<and> \<not> is_white_space (last (trim s))) \<and>
   filter (\<lambda>x. x = CHR ''@'') (getCleanUsername (CHR ''@'' # s)) = filter (\<lambda>x. x = CHR ''@'') s \<and>
   (c \<noteq> CHR ''@'' \<longrightarrow>
      filter (\<lambda>x. x = CHR ''@'') (getCleanUsername (c # s)) = filter (\<lambda>x. x = CHR ''@'') (c # s)) \<and>
   getCleanUsername ''@octocat'' = ''octocat'' \<and>
   getCleanUsername ''  @octocat  '' = ''@octocat'' \<and>
   getCleanUsername ''@@a'' = ''@a'' \<and>
   getCleanUsername ''user@name'' = ''user@name''"
proof -
  have strip: "getCleanUsername (CHR ''@'' # s) = trim s"
    by (simp add: getCleanUsername_def replace_leading_at_def)
  have keep: "c \<noteq> CHR ''@'' \<longrightarrow> getCleanUsername (c # s) = trim (c # s)"
    by (simp add: getCleanUsername_def replace_leading_at_def)
  have empty: "getCleanUsername [] = []"
    by (simp add: getCleanUsername_def replace_leading_at_def trim_def)
  have ends: "trim s \<noteq> [] \<longrightarrow>
      \<not> is_white_space (hd (trim s)) \<and> \<not> is_white_space (last (trim s))"
    using trim_ends [of s] by blast
  have at1: "filter (\<lambda>x. x = CHR ''@'') (getCleanUsername (CHR ''@'' # s)) =
      filter (\<lambda>x. x = CHR ''@'') s"
    by (simp only: strip trim_keeps [OF at_not_white_space])
  have at2: "c \<noteq> CHR ''@'' \<longrightarrow>
      filter (\<lambda>x. x = CHR ''@'') (getCleanUsername (c # s)) = filter (\<lambda>x. x = CHR ''@'') (c # s)"
    using keep by (simp add: trim_keeps [OF at_not_white_space])
  have ex1: "getCleanUsername ''@octocat'' = ''octocat''"
    by (simp add: getCleanUsername_def replace_leading_at_def trim_def is_white_space_def)
  have ex2: "getCleanUsername ''  @octocat  '' = ''@octocat''"
    by (simp add: getCleanUsername_def replace_leading_at_def trim_def is_white_space_def)
  have ex3: "getCleanUsername ''@@a'' = ''@a''"
    by (simp add: getCleanUsername_def replace_leading_at_def trim_def is_white_space_def)
  have ex4: "getCleanUsername ''user@name'' = ''user@name''"
    by (simp add: getCleanUsername_def replace_leading_at_def trim_def is_white_space_def)
  from strip keep empty trim_decomp [of s] ends at1 at2 ex1 ex2 ex3 ex4 show ?thesis
    by (intro conjI)
qed

theorem getCleanUsername_strips_first_at_then_trims_witness:
  "CHR '' '' \<noteq> CHR ''@'' \<and>
   getCleanUsername ''  @octocat  '' = trim ''  @octocat  '' \<and>
   trim '' @octocat  '' = ''@octocat'' \<and>
   \<not> is_white_space (hd (trim '' @octocat  '')) \<and>
   \<not> is_white_space (last (trim '' @octocat  '')) \<and>
   filter (\<lambda>x. x = CHR ''@'') (getCleanUsername ''  @octocat  '') = ''@''"
proof -
  have c: "CHR '' '' \<noteq> CHR ''@''"
    by simp
  have t: "trim '' @octocat  '' = ''@octocat''"
    by (simp add: trim_def is_white_space_def)
  then have n: "trim '' @octocat  '' \<noteq> []"
    by simp
  have f: "trim ''  @octocat  '' = ''@octocat''"
    by (simp add: trim_def is_white_space_def)
  from getCleanUsername_strips_first_at_then_trims [where c = "CHR '' ''" and s = "'' @octocat  ''"]
  show ?thesis
    using c t n f by simp
qed

section \<open>Top languages: properties\<close>

text \<open>
  With the comparator \<open>b - a\<close> on the counts, stable insertion is the library's stable
  insertion sort on the negated count.
\<close>

lemma insert_by_insort_key:
  "insert_by (\<lambda>(_, a) (_, b). b - a) x ys = insort_key (\<lambda>e. - snd e) x ys"
  by (induction ys) (auto simp: case_prod_beta)

lemma array_sort_sort_key:
  "array_sort (\<lambda>(_, a) (_, b). b - a) xs = sort_key (\<lambda>e. - snd e) xs"
  unfolding array_sort_def sort_key_def
  by (induction xs) (simp_all add: insert_by_insort_key)

lemma ranked_descending:
  fixes xs :: "('a \<times> number) list"
  shows "sorted_wrt (\<lambda>x y. snd x \<ge> snd y) (array_sort (\<lambda>(_, a) (_, b). b - a) xs)"
proof -
  have "sorted (map (\<lambda>e. - snd e) (sort_key (\<lambda>e. - snd e) xs))"
    by (rule sorted_sort_key)
  then show ?thesis
    by (simp add: array_sort_sort_key sorted_map)
qed

lemma ranked_stable:
  fixes xs :: "('a \<times> number) list"
  shows "filter (\<lambda>e. snd e = c) (array_sort (\<lambda>(_, a) (_, b). b - a) xs) =
         filter (\<lambda>e. snd e = c) xs"
  using sort_key_stable [of "\<lambda>e. - snd e" "- c" xs]
  by (simp add: array_sort_sort_key)

lemma ranked_mset:
  fixes xs :: "('a \<times> number) list"
  shows "mset (array_sort (\<lambda>(_, a) (_, b). b - a) xs) = mset xs"
  by (simp add: array_sort_sort_key)

lemma topLanguages_ranked:
  "topLanguages languageCount =
     map fst (take 3 (array_sort (\<lambda>(_, a) (_, b). b - a) languageCount))"
proof -
  have "(\<lambda>(lang :: string, _ :: number). lang) = fst"
    by (simp add: fun_eq_iff)
  then show ?thesis
    by (simp add: topLanguages_def)
qed

text \<open>
  Claim C7. The top languages are the names of the first three entries of the entries
  sorted by count, descending: the sorted list is a permutation of the entries, its
  counts never increase, and entries of equal count keep their order of insertion
  (stability). The result has three names, or as many as there are entries; with fewer
  than three entries it is all of them in descending order of count. For
  \<open>{JavaScript:15, Python:8, TypeScript:20, Go:5}\<close> it is
  \<open>["TypeScript", "JavaScript", "Python"]\<close>, and the tie of
  \<open>{JavaScript:10, Python:10, TypeScript:5}\<close> keeps JavaScript before Python.
\<close>

theorem topLanguages_top_three_descending_stable:
  fixes languageCount :: "(string \<times> number) list"
  defines "ranked \<equiv> array_sort (\<lambda>(_, a) (_, b). b - a) languageCount"
  shows "topLanguages languageCount = map fst (take 3 ranked) \<and>
         mset ranked = mset languageCount \<and>
         sorted_wrt (\<lambda>x y. snd x \<ge> snd y) ranked \<and>
         (\<forall>c. filter (\<lambda>e. snd e = c) ranked = filter (\<lambda>e. snd e = c) languageCount) \<and>
         length (topLanguages languageCount) = min 3 (length languageCount) \<and>
         (length languageCount < 3 \<longrightarrow> topLanguages languageCount = map fst ranked) \<and>
         topLanguages [(''JavaScript'', 15), (''Python'', 8), (''TypeScript'', 20), (''Go'', 5)] =
           [''TypeScript'', ''JavaScript'', ''Python''] \<and>
         topLanguages [(''JavaScript'', 10), (''Python'', 10), (''TypeScript'', 5)] =
           [''JavaScript'', ''Python'', ''TypeScript'']"
proof -
  have top: "topLanguages languageCount = map fst (take 3 ranked)"
    by (simp only: ranked_def topLanguages_ranked)
  have perm: "mset ranked = mset languageCount"
    by (simp only: ranked_def ranked_mset)
  then have len: "length ranked = length languageCount"
    by (rule mset_eq_length)
  have desc: "sorted_wrt (\<lambda>x y. snd x \<ge> snd y) ranked"
    by (simp only: ranked_def ranked_descending)
  have stable: "\<forall>c. filter (\<lambda>e. snd e = c) ranked = filter (\<lambda>e. snd e = c) languageCount"
    by (simp only: ranked_def ranked_stable simp_thms)
  have count: "length (topLanguages languageCount) = min 3 (length languageCount)"
    by (simp add: top len min.commute)
  have few: "length languageCount < 3 \<longrightarrow> topLanguages languageCount = map fst ranked"
    by (simp add: top len)
  have ex: "topLanguages [(''JavaScript'', 15), (''Python'', 8), (''TypeScript'', 20), (''Go'', 5)] =
      [''TypeScript'', ''JavaScript'', ''Python'']"
    by (simp add: topLanguages_def array_sort_def)
  have tie: "topLanguages [(''JavaScript'', 10), (''Python'', 10), (''TypeScript'', 5)] =
      [''JavaScript'', ''Python'', ''TypeScript'']"
    by (simp add: topLanguages_def array_sort_def)
  from top perm desc stable count few ex tie show ?thesis
    by (intro conjI)
qed

theorem topLanguages_top_three_descending_stable_witness:
  "length [(''JavaScript'', 10 :: number), (''Python'', 20)] < 3 \<and>
   array_sort (\<lambda>(_, a) (_, b). b - a) [(''JavaScript'', 10 :: number), (''Python'', 20)] =
     [(''Python'', 20), (''JavaScript'', 10)] \<and>
   topLanguages [(''JavaScript'', 10), (''Python'', 20)] = [''Python'', ''JavaScript'']"
proof -
  have l: "length [(''JavaScript'', 10 :: number), (''Python'', 20)] < 3"
    by simp
  have r: "array_sort (\<lambda>(_, a) (_, b). b - a) [(''JavaScript'', 10 :: number), (''Python'', 20)] =
      [(''Python'', 20), (''JavaScript'', 10)]"
    by (simp add: array_sort_def)
  from topLanguages_top_three_descending_stable [of "[(''JavaScript'', 10), (''Python'', 20)]"]
  have "length [(''JavaScript'', 10 :: number), (''Python'', 20)] < 3 \<longrightarrow>
      topLanguages [(''JavaScript'', 10), (''Python'', 20)] =
        map fst (array_sort (\<lambda>(_, a) (_, b). b - a) [(''JavaScript'', 10 :: number), (''Python'', 20)])"
    by (elim conjE)
  with l r show ?thesis
    by simp
qed

section \<open>Contribution totalling and stats aggregation: properties\<close>

lemma foldl_add_sum_list:
  fixes a :: number
  shows "foldl (\<lambda>s x. s + f x) a xs = a + sum_list (map f xs)"
  by (induction xs arbitrary: a) (simp_all add: add.assoc)

lemma sum_list_days:
  "sum_list (map (\<lambda>w. sum_list (map contributionCount (contributionDays w))) weeks) =
     sum_list (map contributionCount (concat (map contributionDays weeks)))"
  by (induction weeks) simp_all

lemma or_zero_absent_or_value: "or_zero x = (case x of None \<Rightarrow> 0 | Some v \<Rightarrow> v)"
  by (simp add: or_zero_def split: option.split)

text \<open>
  Claim C8. The contribution total is the sum of the \<open>contributionCount\<close> of every day
  of every week of the input, and it is zero for the empty sequence of weeks; the two
  weeks of the test, with days 5, 3 and 2, 4, total 14.
\<close>

theorem total_contributions_is_sum_of_all_days:
  "total_contributions weeks =
     sum_list (map contributionCount (concat (map contributionDays weeks))) \<and>
   total_contributions [] = 0 \<and>
   total_contributions
     [\<lparr>contributionDays = [\<lparr>contributionCount = 5\<rparr>, \<lparr>contributionCount = 3\<rparr>]\<rparr>,
      \<lparr>contributionDays = [\<lparr>contributionCount = 2\<rparr>, \<lparr>contributionCount = 4\<rparr>]\<rparr>] = 14"
proof -
  have "total_contributions weeks =
      sum_list (map contributionCount (concat (map contributionDays weeks)))"
    by (simp add: total_contributions_def foldl_add_sum_list sum_list_days)
  moreover have "total_contributions [] = 0"
    by (simp add: total_contributions_def)
  moreover have "total_contributions
     [\<lparr>contributionDays = [\<lparr>contributionCount = 5\<rparr>, \<lparr>contributionCount = 3\<rparr>]\<rparr>,
      \<lparr>contributionDays = [\<lparr>contributionCount = 2\<rparr>, \<lparr>contributionCount = 4\<rparr>]\<rparr>] = 14"
    by (simp add: total_contributions_def)
  ultimately show ?thesis
    by (intro conjI)
qed

text \<open>
  Claim C9. The star total and the fork total are the sums of the field over the
  records, a record without the field counting zero: each is the sum of the values
  present, is zero for the empty sequence, and is unchanged when a record without the
  field is added anywhere in the sequence. The test's records with 100 stars, none and
  50 stars total 150.
\<close>

theorem stats_aggregation_missing_field_is_zero:
  "totalStars repos =
     sum_list (map (\<lambda>r. case stargazers_count r of None \<Rightarrow> 0 | Some v \<Rightarrow> v) repos) \<and>
   totalForks repos =
     sum_list (map (\<lambda>r. case forks_count r of None \<Rightarrow> 0 | Some v \<Rightarrow> v) repos) \<and>
   totalStars [] = 0 \<and>
   totalForks [] = 0 \<and>
   totalStars (xs @ [r\<lparr>stargazers_count := None\<rparr>] @ ys) = totalStars (xs @ ys) \<and>
   totalForks (xs @ [r\<lparr>forks_count := None\<rparr>] @ ys) = totalForks (xs @ ys) \<and>
   totalStars
     [\<lparr>stargazers_count = Some 100, forks_count = None\<rparr>,
      \<lparr>stargazers_count = None, forks_count = None\<rparr>,
      \<lparr>stargazers_count = Some 50, forks_count = None\<rparr>] = 150"
proof -
  have stars: "totalStars zs =
      sum_list (map (\<lambda>r. case stargazers_count r of None \<Rightarrow> 0 | Some v \<Rightarrow> v) zs)" for zs
    by (simp add: totalStars_def foldl_add_sum_list or_zero_absent_or_value)
  have forks: "totalForks zs =
      sum_list (map (\<lambda>r. case forks_count r of None \<Rightarrow> 0 | Some v \<Rightarrow> v) zs)" for zs
    by (simp add: totalForks_def foldl_add_sum_list or_zero_absent_or_value)
  have "totalStars [] = 0"
    by (simp add: totalStars_def)
  moreover have "totalForks [] = 0"
    by (simp add: totalForks_def)
  moreover have "totalStars (xs @ [r\<lparr>stargazers_count := None\<rparr>] @ ys) = totalStars (xs @ ys)"
    by (simp add: stars)
  moreover have "totalForks (xs @ [r\<lparr>forks_count := None\<rparr>] @ ys) = totalForks (xs @ ys)"
    by (simp add: forks)
  moreover have "totalStars
     [\<lparr>stargazers_count = Some 100, forks_count = None\<rparr>,
      \<lparr>stargazers_count = None, forks_count = None\<rparr>,
      \<lparr>stargazers_count = Some 50, forks_count = None\<rparr>] = 150"
    by (simp add: totalStars_def or_zero_def)
  ultimately show ?thesis
    using stars [of repos] forks [of repos] by (intro conjI)
qed

end
